theory Spec2Isabelle
  imports Main
begin

section \<open>Strings\<close>

text \<open>
  Go strings are byte sequences; they are modelled as \<open>string\<close> (a list of 8-bit
  characters).  The three functions of package \<open>strings\<close> that the sources call are
  written out here.
\<close>

text \<open>\<open>strings.HasPrefix(s, prefix)\<close>.\<close>

fun HasPrefix :: "string \<Rightarrow> string \<Rightarrow> bool" where
  "HasPrefix s [] = True"
| "HasPrefix [] (p # ps) = False"
| "HasPrefix (c # cs) (p # ps) = (c = p \<and> HasPrefix cs ps)"

text \<open>\<open>strings.Contains(s, substr)\<close>.\<close>

fun Contains :: "string \<Rightarrow> string \<Rightarrow> bool" where
  "Contains [] sub = (sub = [])"
| "Contains (c # cs) sub = (HasPrefix (c # cs) sub \<or> Contains cs sub)"

text \<open>
  \<open>strings.ToLower(s)\<close> on the ASCII range: the bytes \<open>A\<close> .. \<open>Z\<close> are mapped to
  \<open>a\<close> .. \<open>z\<close>, every other byte is kept.  (Go also lower-cases the letters beyond
  ASCII; the model leaves their bytes as they are.)
\<close>

definition lower_char :: "char \<Rightarrow> char" where
  "lower_char c =
     (case map_of (zip ''ABCDEFGHIJKLMNOPQRSTUVWXYZ'' ''abcdefghijklmnopqrstuvwxyz'') c of
        Some l \<Rightarrow> l
      | None \<Rightarrow> c)"

definition ToLower :: "string \<Rightarrow> string" where
  "ToLower s = map lower_char s"

section \<open>Columns and tables\<close>

text \<open>The canonical data types (\<open>types.DataType\<close>).\<close>

datatype DataType = STRING | INT64 | FLOAT64 | BOOL | TIMESTAMP | JSON | UNKNOWN

text \<open>\<open>SQLColumn\<close> of \<open>sqltype.go\<close>.\<close>

record SQLColumn =
  Type :: string
  DdlType :: string
  Override :: bool
  DataType :: DataType
  New :: bool

definition GetDDLType :: "SQLColumn \<Rightarrow> string" where
  "GetDDLType c = (if DdlType c \<noteq> '''' then DdlType c else Type c)"

text \<open>
  Modelled from the spec: the type \<open>DatePartition\<close> of the field \<open>Partition\<close>,
  "partition: {field, value, granularity}".
\<close>

record DatePartition =
  Field :: string
  Value :: string
  Granularity :: string

text \<open>
  \<open>Table\<close>: \<open>Columns\<close> is a Go map from column name to column, \<open>PKFields\<close> a
  \<open>utils.Set[string]\<close> (a nil set and an empty set are both \<open>{}\<close>).
\<close>

record Table =
  Name :: string
  Temporary :: bool
  Cached :: bool
  Columns :: "string \<rightharpoonup> SQLColumn"
  PKFields :: "string set"
  PrimaryKeyName :: string
  TimestampColumn :: string
  Partition :: DatePartition
  DeletePkFields :: bool

definition BulkerManagedPkConstraintPrefix :: string where
  "BulkerManagedPkConstraintPrefix = ''jitsu_pk_''"

text \<open>
  \<open>Exists\<close>: a nil table (\<open>None\<close>) does not exist; otherwise the table exists when
  it has a column, a primary-key field or the delete flag.
\<close>

fun Exists :: "Table option \<Rightarrow> bool" where
  "Exists None = False"
| "Exists (Some t) = (Columns t \<noteq> Map.empty \<or> PKFields t \<noteq> {} \<or> DeletePkFields t)"

text \<open>
  \<open>BuildConstraintName\<close>: the argument \<open>u\<close> is the string that this call of
  \<open>uuid.NewLettersNumbers()\<close> returns (a random source of package \<open>jitsubase/uuid\<close>).
\<close>

definition BuildConstraintName :: "string \<Rightarrow> string \<Rightarrow> string" where
  "BuildConstraintName u tableName = BulkerManagedPkConstraintPrefix @ u"

text \<open>
  Modelled from the spec: \<open>utils.Set.Equals\<close> (package \<open>jitsubase/utils\<close>), which
  \<open>Diff\<close> calls to decide whether "PK sets differ"; two sets are equal when they have the
  same members.
\<close>

definition Set_Equals :: "string set \<Rightarrow> string set \<Rightarrow> bool" where
  "Set_Equals a b = (a = b)"

text \<open>
  \<open>Table.Diff\<close>.  \<open>u\<close> is the random part of the constraint name built at the start
  of the primary-key logic; \<open>another\<close> is a pointer and may be nil.
\<close>

definition empty_diff :: "Table \<Rightarrow> Table" where
  "empty_diff t =
     \<lparr>Name = Name t, Temporary = False, Cached = False, Columns = Map.empty,
      PKFields = {}, PrimaryKeyName = '''', TimestampColumn = '''',
      Partition = \<lparr>Field = '''', Value = '''', Granularity = ''''\<rparr>,
      DeletePkFields = False\<rparr>"

definition Diff :: "string \<Rightarrow> Table \<Rightarrow> Table option \<Rightarrow> Table" where
  "Diff u t another =
     (case another of
        None \<Rightarrow> empty_diff t
      | Some a \<Rightarrow>
          if \<not> Exists (Some a) then empty_diff t
          else
            let diff = (empty_diff t)
                  \<lparr>Columns := (\<lambda>name. if Columns t name = None then Columns a name else None)\<rparr>;
                jitsuPrimaryKeyName = BuildConstraintName u (Name t)
            in
              if PrimaryKeyName t \<noteq> '''' \<and>
                 \<not> HasPrefix (ToLower (PrimaryKeyName t)) BulkerManagedPkConstraintPrefix
              then diff
              else if PKFields t \<noteq> {} then
                (if \<not> Set_Equals (PKFields t) (PKFields a)
                 then diff\<lparr>DeletePkFields := True, PKFields := PKFields a,
                           PrimaryKeyName := jitsuPrimaryKeyName\<rparr>
                 else diff)
              else if PKFields a \<noteq> {} then
                diff\<lparr>PKFields := PKFields a, PrimaryKeyName := jitsuPrimaryKeyName\<rparr>
              else diff)"

section \<open>MySQL column DDL\<close>

definition mySQLPrimaryKeyTypesMapping :: "string \<rightharpoonup> string" where
  "mySQLPrimaryKeyTypesMapping = [''TEXT'' \<mapsto> ''VARCHAR(255)'']"

text \<open>\<open>mySQLColumnDDL\<close>: \<open>fmt.Sprintf("%s %s", quotedName, sqlType)\<close>.\<close>

definition mySQLColumnDDL :: "string \<Rightarrow> string \<Rightarrow> SQLColumn \<Rightarrow> string set \<Rightarrow> string" where
  "mySQLColumnDDL name quotedName column pkFields =
     (let sqlType = GetDDLType column;
          sqlType' =
            (if name \<in> pkFields then
               (case mySQLPrimaryKeyTypesMapping sqlType of
                  Some typeForPKField \<Rightarrow> typeForPKField
                | None \<Rightarrow> sqlType)
             else sqlType)
      in quotedName @ '' '' @ sqlType')"

section \<open>JSON values\<close>

text \<open>
  A decoded JSON value (\<open>any\<close>): nil, a bool, a number, a string, a slice, or a
  \<open>map[string]any\<close>.  A Go map is written as the list of its entries in the order in
  which \<open>range\<close> visits them.
\<close>

datatype jvalue =
    JNil
  | JBool bool
  | JNum int
  | JStr string
  | JSlice "jvalue list"
  | JMap "(string \<times> jvalue) list"

type_synonym Object = "(string \<times> jvalue) list"

section \<open>The MySQL server as the adapter sees it\<close>

text \<open>Errors: the \<open>errorj\<close> kinds the sources name, and the plain errors they build.\<close>

datatype sql_error =
    NotActive
  | DriverError
  | GetTableError
  | GetPrimaryKeysError
  | RenameError
  | DropError
  | TruncateError
  | LoadError
  | OtherError string
  | Decorated sql_error string
  | NilPointerPanic

text \<open>The statements the adapter sends.\<close>

datatype statement =
    SelectColumns string
  | SelectPrimaryKeys string
  | SelectExists string
  | RenameTableStmt string string
  | DropTableStmt string
  | TruncateTableStmt string

record mysql_table =
  columns :: "(string \<times> string) list"
  primary_key :: "string list"
  rows :: "Object list"

text \<open>
  The adapter together with the server behind it.  \<open>tables\<close> is the content of the
  configured database; \<open>columns\<close> of a table are its \<open>information_schema.columns\<close>
  rows (name, column type), \<open>primary_key\<close> the names of the rows with
  \<open>column_key = 'PRI'\<close>.  \<open>refused\<close> tells which statements the server rejects.
  \<open>uuids\<close> and \<open>clock\<close> are the values that the successive calls of
  \<open>uuid.NewLettersNumbers()\<close> and of \<open>timestamp.Now().Format("_20060102_150405")\<close>
  return; \<open>drawn\<close> and \<open>ticks\<close> count the calls made so far.  \<open>tableNameFunc\<close> is
  the identifier adaptation \<open>TableName\<close> of the adapter base.
\<close>

record MySQL =
  tables :: "string \<rightharpoonup> mysql_table"
  refused :: "statement \<Rightarrow> bool"
  uuids :: "nat \<Rightarrow> string"
  drawn :: nat
  clock :: "nat \<Rightarrow> string"
  ticks :: nat
  tableNameFunc :: "string \<Rightarrow> string"

definition NewLettersNumbers :: "MySQL \<Rightarrow> string \<times> MySQL" where
  "NewLettersNumbers m = (uuids m (drawn m), m\<lparr>drawn := Suc (drawn m)\<rparr>)"

definition NowFormat :: "MySQL \<Rightarrow> string \<times> MySQL" where
  "NowFormat m = (clock m (ticks m), m\<lparr>ticks := Suc (ticks m)\<rparr>)"

text \<open>
  \<open>MySQL.getTable\<close>: the columns query, then one map entry
  \<open>SQLColumn{Type: columnType}\<close> per row whose column type is not empty.  The other
  fields of the column have their zero values; \<open>UNKNOWN\<close> stands for the zero value of
  \<open>types.DataType\<close>.
\<close>

fun scan_columns ::
  "(string \<times> string) list \<Rightarrow> (string \<rightharpoonup> SQLColumn) \<Rightarrow> (string \<rightharpoonup> SQLColumn)" where
  "scan_columns [] cols = cols"
| "scan_columns ((columnName, columnType) # rest) cols =
     (if columnType = '''' then scan_columns rest cols
      else scan_columns rest
             (cols(columnName \<mapsto>
                \<lparr>Type = columnType, DdlType = '''', Override = False, DataType = UNKNOWN,
                 New = False\<rparr>)))"

definition MySQL_getTable :: "MySQL \<Rightarrow> string \<Rightarrow> sql_error + Table" where
  "MySQL_getTable m tableName0 =
     (let tableName = tableNameFunc m tableName0;
          table = \<lparr>Name = tableName, Temporary = False, Cached = False,
                   Columns = Map.empty, PKFields = {}, PrimaryKeyName = '''',
                   TimestampColumn = '''',
                   Partition = \<lparr>Field = '''', Value = '''', Granularity = ''''\<rparr>,
                   DeletePkFields = False\<rparr>
      in if refused m (SelectColumns tableName) then Inl GetTableError
         else
           Inr (table\<lparr>Columns :=
                  scan_columns
                    (case tables m tableName of None \<Rightarrow> [] | Some t \<Rightarrow> columns t)
                    Map.empty\<rparr>))"

definition MySQL_getPrimaryKeys :: "MySQL \<Rightarrow> string \<Rightarrow> sql_error + string set" where
  "MySQL_getPrimaryKeys m tableName0 =
     (let tableName = tableNameFunc m tableName0
      in if refused m (SelectPrimaryKeys tableName) then Inl GetPrimaryKeysError
         else Inr (case tables m tableName of None \<Rightarrow> {} | Some t \<Rightarrow> set (primary_key t)))"

text \<open>\<open>MySQL.GetTableSchema\<close>; the result pair is Go's \<open>(*Table, error)\<close>.\<close>

definition MySQL_GetTableSchema ::
  "MySQL \<Rightarrow> string \<Rightarrow> (Table option \<times> sql_error option) \<times> MySQL" where
  "MySQL_GetTableSchema m tableName =
     (case MySQL_getTable m tableName of
        Inl err \<Rightarrow> ((None, Some err), m)
      | Inr table \<Rightarrow>
          if Columns table = Map.empty then ((Some table, None), m)
          else
            (case MySQL_getPrimaryKeys m tableName of
               Inl err \<Rightarrow> ((None, Some err), m)
             | Inr pkFields \<Rightarrow>
                 let table1 = table\<lparr>PKFields := pkFields\<rparr>
                 in if pkFields \<noteq> {} then
                      (let (u, m1) = NewLettersNumbers m
                       in ((Some (table1\<lparr>PrimaryKeyName :=
                                     BuildConstraintName u (Name table1)\<rparr>), None), m1))
                    else ((Some table1, None), m)))"

text \<open>
  Modelled from the spec: \<open>SQLAdapterBase.renameTable\<close>, the rename step of
  \<open>replace_table\<close> ("rename \<open>name\<close> to \<open>deprecated_...\<close>, rename \<open>replacement\<close> to
  \<open>name\<close>").  It sends one rename statement; the server rejects it when it refuses the
  statement, when the table to rename does not exist or when the new name is taken.
\<close>

definition base_renameTable :: "MySQL \<Rightarrow> string \<Rightarrow> string \<Rightarrow> sql_error option \<times> MySQL" where
  "base_renameTable m tableName newTableName =
     (if refused m (RenameTableStmt tableName newTableName) then (Some RenameError, m)
      else
        (case tables m tableName of
           None \<Rightarrow> (Some RenameError, m)
         | Some t \<Rightarrow>
             if tables m newTableName \<noteq> None then (Some RenameError, m)
             else (None, m\<lparr>tables := (tables m)(tableName := None, newTableName \<mapsto> t)\<rparr>)))"

text \<open>
  Modelled from the spec: \<open>drop_table(name, if_exists_bool)\<close> of the adapter base.  A
  failure is a \<open>DropError\<close>.
\<close>

definition MySQL_DropTable :: "MySQL \<Rightarrow> string \<Rightarrow> bool \<Rightarrow> sql_error option \<times> MySQL" where
  "MySQL_DropTable m tableName ifExists =
     (if refused m (DropTableStmt tableName) then (Some DropError, m)
      else
        (case tables m tableName of
           None \<Rightarrow> (if ifExists then (None, m) else (Some DropError, m))
         | Some t \<Rightarrow> (None, m\<lparr>tables := (tables m)(tableName := None)\<rparr>)))"

text \<open>
  Modelled from the spec: \<open>truncate_table(name)\<close> of the adapter base, which "preserves
  schema": the rows go, the columns and the primary key stay.
\<close>

definition MySQL_TruncateTable :: "MySQL \<Rightarrow> string \<Rightarrow> sql_error option \<times> MySQL" where
  "MySQL_TruncateTable m tableName =
     (if refused m (TruncateTableStmt tableName) then (Some TruncateError, m)
      else
        (case tables m tableName of
           None \<Rightarrow> (Some TruncateError, m)
         | Some t \<Rightarrow> (None, m\<lparr>tables := (tables m)(tableName \<mapsto> t\<lparr>rows := []\<rparr>)\<rparr>)))"

text \<open>\<open>MySQL.renameTable\<close>.\<close>

definition MySQL_renameTable ::
  "MySQL \<Rightarrow> bool \<Rightarrow> string \<Rightarrow> string \<Rightarrow> sql_error option \<times> MySQL" where
  "MySQL_renameTable m ifExists tableName0 newTableName =
     (if ifExists then
        (let tableName = tableNameFunc m tableName0
         in if refused m (SelectExists tableName) then (Some DriverError, m)
            else if tables m tableName = None then (None, m)
            else base_renameTable m tableName newTableName)
      else base_renameTable m tableName0 newTableName)"

text \<open>\<open>MySQL.ReplaceTable\<close>.\<close>

definition MySQL_ReplaceTable ::
  "MySQL \<Rightarrow> string \<Rightarrow> Table \<Rightarrow> bool \<Rightarrow> sql_error option \<times> MySQL" where
  "MySQL_ReplaceTable m targetTableName replacementTable dropOldTable =
     (let (ts, m0) = NowFormat m;
          tmpTable = ''deprecated_'' @ targetTableName @ ts;
          (err1, m1) = MySQL_renameTable m0 True targetTableName tmpTable;
          (err, m2) = MySQL_renameTable m1 False (Name replacementTable) targetTableName
      in if dropOldTable \<and> err1 = None \<and> err = None
         then MySQL_DropTable m2 tmpTable True
         else (err, m2))"

section \<open>Streams\<close>

text \<open>
  Modelled from the spec: \<open>bulker.State\<close> and its status, "{status: one of {Active,
  Completed, Aborted, Failed}, last_error, successful_rows, processed_rows,
  representation (current destination table snapshot)}".
\<close>

datatype Status = Active | Completed | Aborted | Failed

record State =
  Status :: Status
  LastError :: "sql_error option"
  SuccessfulRows :: int
  ProcessedRows :: int
  Representation :: "Table option"

text \<open>
  The \<open>SQLAdapter\<close> interface, as far as the two \<open>Complete\<close> methods use it: every
  method takes the state \<open>'w\<close> of the warehouse and returns it updated.  Pointers to
  tables are options.  The calls that the streams make through the transaction wrapper
  \<open>ps.tx\<close> and through \<open>ps.sqlAdapter\<close> reach the same warehouse.
\<close>

record 'w SQLAdapter =
  GetTableSchema :: "string \<Rightarrow> 'w \<Rightarrow> (Table option \<times> sql_error option) \<times> 'w"
  TruncateTable :: "string \<Rightarrow> 'w \<Rightarrow> sql_error option \<times> 'w"
  DropTable :: "string \<Rightarrow> bool \<Rightarrow> 'w \<Rightarrow> sql_error option \<times> 'w"
  ReplaceTable :: "string \<Rightarrow> Table option \<Rightarrow> bool \<Rightarrow> 'w \<Rightarrow> sql_error option \<times> 'w"
  CopyTables :: "Table option \<Rightarrow> Table option \<Rightarrow> bool \<Rightarrow> 'w \<Rightarrow> sql_error option \<times> 'w"
  LoadTable :: "Table option \<Rightarrow> Object list \<Rightarrow> 'w \<Rightarrow> sql_error option \<times> 'w"
  EnsureTableWithoutCaching ::
    "string \<Rightarrow> Table option \<Rightarrow> 'w \<Rightarrow> (Table option \<times> sql_error option) \<times> 'w"
  Commit :: "'w \<Rightarrow> sql_error option \<times> 'w"
  Rollback :: "'w \<Rightarrow> sql_error option \<times> 'w"

text \<open>The adapter calls a stream makes, for the ghost field \<open>trace\<close> below.\<close>

datatype adapter_call =
    CallGetTableSchema string
  | CallTruncateTable string
  | CallDropTable string bool
  | CallReplaceTable string "Table option" bool
  | CallCopyTables "Table option" "Table option" bool
  | CallLoadTable "Table option" "Object list"
  | CallEnsureTableWithoutCaching string "Table option"
  | CallCommit
  | CallRollback

text \<open>
  The fields of \<open>AbstractTransactionalSQLStream\<close> that \<open>Complete\<close> reads: \<open>tx\<close> tells
  whether a transaction is open (\<open>ps.tx\<close> is not nil), \<open>batchFile\<close> holds the rows
  written to the batch file (\<open>None\<close> when there is no file).  \<open>trace\<close> is a ghost
  field: the adapter calls made so far, in order.
\<close>

record stream =
  state :: State
  stream_id :: string
  tableName :: string
  mergeOpt :: bool
  tx :: bool
  tmpTable :: "Table option"
  dstTable :: "Table option"
  batchFile :: "Object list option"
  trace :: "adapter_call list"

definition called :: "adapter_call \<Rightarrow> stream \<Rightarrow> stream" where
  "called c ps = ps\<lparr>trace := trace ps @ [c]\<rparr>"

text \<open>
  Modelled from the spec: \<open>updateRepresentationTable\<close> of the abstract stream, which
  keeps the "representation (current destination table snapshot)" of the state.
\<close>

definition updateRepresentationTable :: "stream \<Rightarrow> Table option \<Rightarrow> stream" where
  "updateRepresentationTable ps table = ps\<lparr>state := (state ps)\<lparr>Representation := table\<rparr>\<rparr>"

text \<open>
  Modelled from the spec: \<open>flushBatchFile\<close> of the abstract stream.  "On flush it
  synchronously writes outstanding rows and invokes \<open>load_table\<close>": the rows of the batch
  file are loaded into the temporary table.
\<close>

definition flushBatchFile ::
  "'w SQLAdapter \<Rightarrow> stream \<Rightarrow> 'w \<Rightarrow> sql_error option \<times> stream \<times> 'w" where
  "flushBatchFile ad ps w =
     (case batchFile ps of
        None \<Rightarrow> (None, ps, w)
      | Some file_rows \<Rightarrow>
          let (err, w1) = LoadTable ad (tmpTable ps) file_rows w
          in (err, called (CallLoadTable (tmpTable ps) file_rows) ps, w1))"

text \<open>
  Modelled from the spec: the release of the temporary table in \<open>postComplete\<close>
  ("temporary tables are created on transaction open, dropped on commit or rollback").
  The result of the drop is not looked at.
\<close>

definition release_tmp :: "'w SQLAdapter \<Rightarrow> stream \<Rightarrow> 'w \<Rightarrow> stream \<times> 'w" where
  "release_tmp ad ps w =
     (case tmpTable ps of
        None \<Rightarrow> (ps, w)
      | Some t \<Rightarrow>
          let (err, w1) = DropTable ad (Name t) True w
          in (called (CallDropTable (Name t) True) ps, w1))"

text \<open>
  Modelled from the spec: the terminal transition in \<open>postComplete\<close>.  An error makes the
  stream \<open>Failed\<close> "with \<open>last_error\<close> set"; without one it is \<open>Completed\<close>.
\<close>

definition finish :: "stream \<Rightarrow> sql_error option \<Rightarrow> stream" where
  "finish ps err =
     (case err of
        Some e \<Rightarrow> ps\<lparr>state := (state ps)\<lparr>Status := Failed, LastError := Some e\<rparr>\<rparr>
      | None \<Rightarrow> ps\<lparr>state := (state ps)\<lparr>Status := Completed\<rparr>\<rparr>)"

text \<open>
  Modelled from the spec: \<open>postComplete\<close> of the abstract stream.  It "releases temp
  tables, batch files, and transaction; if \<open>last_error\<close> is set, it issues a rollback and
  returns the original error"; otherwise it commits, and an error of the commit is the
  error returned.  The error it looks at is the one \<open>Complete\<close> hands over.  Without an
  open transaction nothing is sent to the warehouse.
\<close>

definition postComplete ::
  "'w SQLAdapter \<Rightarrow> stream \<Rightarrow> 'w \<Rightarrow> sql_error option
     \<Rightarrow> (State \<times> sql_error option) \<times> stream \<times> 'w" where
  "postComplete ad ps0 w err =
     (let ps = ps0\<lparr>batchFile := None\<rparr>
      in if \<not> tx ps then
           (let ps1 = finish ps err in ((state ps1, err), ps1, w))
         else
           (case err of
              Some e \<Rightarrow>
                let (rerr, w1) = Rollback ad w;
                    (ps1, w2) = release_tmp ad (called CallRollback ps) w1;
                    ps2 = finish (ps1\<lparr>tx := False\<rparr>) (Some e)
                in ((state ps2, Some e), ps2, w2)
            | None \<Rightarrow>
                let (cerr, w1) = Commit ad w;
                    (ps1, w2) = release_tmp ad (called CallCommit ps) w1;
                    ps2 = finish (ps1\<lparr>tx := False\<rparr>) cerr
                in ((state ps2, cerr), ps2, w2)))"

text \<open>\<open>errorx.IsOfType(err, errorj.DropError)\<close>; a nil error has no type.\<close>

fun IsOfType_DropError :: "sql_error option \<Rightarrow> bool" where
  "IsOfType_DropError (Some DropError) = True"
| "IsOfType_DropError _ = False"

text \<open>
  \<open>TransactionalStream.Complete\<close>.  The body up to the deferred call returns the error
  that the deferred \<open>postComplete\<close> receives.
\<close>

definition TransactionalStream_body ::
  "'w SQLAdapter \<Rightarrow> stream \<Rightarrow> 'w \<Rightarrow> sql_error option \<times> stream \<times> 'w" where
  "TransactionalStream_body ad ps w =
     (if SuccessfulRows (state ps) > 0 then
        (let (ferr, ps1, w1) =
               (if batchFile ps \<noteq> None then flushBatchFile ad ps w else (None, ps, w))
         in if ferr \<noteq> None then (ferr, ps1, w1)
            else
              (let ((dst, eerr), w2) =
                     EnsureTableWithoutCaching ad (stream_id ps1) (dstTable ps1) w1;
                   ps2 = called (CallEnsureTableWithoutCaching (stream_id ps1) (dstTable ps1)) ps1
               in case eerr of
                    Some e \<Rightarrow>
                      (Some (Decorated e ''failed to ensure destination table''),
                       updateRepresentationTable ps2 (dstTable ps2), w2)
                  | None \<Rightarrow>
                      (let ps3 = updateRepresentationTable (ps2\<lparr>dstTable := dst\<rparr>) dst;
                           (cerr, w3) =
                             CopyTables ad (dstTable ps3) (tmpTable ps3) (mergeOpt ps3) w2
                       in (cerr,
                           called (CallCopyTables (dstTable ps3) (tmpTable ps3) (mergeOpt ps3))
                             ps3,
                           w3))))
      else (LastError (state ps), ps, w))"

definition TransactionalStream_Complete ::
  "'w SQLAdapter \<Rightarrow> stream \<Rightarrow> 'w \<Rightarrow> (State \<times> sql_error option) \<times> stream \<times> 'w" where
  "TransactionalStream_Complete ad ps w =
     (if Status (state ps) \<noteq> Active then ((state ps, Some NotActive), ps, w)
      else
        (let (err, ps1, w1) = TransactionalStream_body ad ps w
         in postComplete ad ps1 w1 err))"

text \<open>\<open>ReplaceTableStream.Complete\<close>, in the same two parts.\<close>

definition ReplaceTableStream_body ::
  "'w SQLAdapter \<Rightarrow> stream \<Rightarrow> 'w \<Rightarrow> sql_error option \<times> stream \<times> 'w" where
  "ReplaceTableStream_body ad ps w =
     (case LastError (state ps) of
        Some e \<Rightarrow> (Some e, ps, w)
      | None \<Rightarrow>
          if SuccessfulRows (state ps) > 0 then
            (let (ferr, ps1, w1) =
                   (if batchFile ps \<noteq> None then flushBatchFile ad ps w else (None, ps, w))
             in if ferr \<noteq> None then (ferr, ps1, w1)
                else
                  (let (err, w2) = ReplaceTable ad (tableName ps1) (tmpTable ps1) True w1;
                       ps2 = called (CallReplaceTable (tableName ps1) (tmpTable ps1) True) ps1
                   in if IsOfType_DropError err then
                        (let (err', w3) =
                               ReplaceTable ad (tableName ps2) (tmpTable ps2) False w2
                         in (err',
                             called (CallReplaceTable (tableName ps2) (tmpTable ps2) False) ps2,
                             w3))
                      else (err, ps2, w2)))
          else
            (let ((table, err), w1) = GetTableSchema ad (tableName ps) w;
                 ps1 = called (CallGetTableSchema (tableName ps)) ps
             in if Exists table then
                  (let (terr, w2) = TruncateTable ad (tableName ps1) w1
                   in (terr, called (CallTruncateTable (tableName ps1)) ps1, w2))
                else (err, ps1, w1)))"

definition ReplaceTableStream_Complete ::
  "'w SQLAdapter \<Rightarrow> stream \<Rightarrow> 'w \<Rightarrow> (State \<times> sql_error option) \<times> stream \<times> 'w" where
  "ReplaceTableStream_Complete ad ps w =
     (if Status (state ps) \<noteq> Active then ((state ps, Some NotActive), ps, w)
      else
        (let (err, ps1, w1) = ReplaceTableStream_body ad ps w
         in postComplete ad ps1 w1 err))"

text \<open>
  The MySQL adapter as an \<open>SQLAdapter\<close>: the methods of \<open>mysql.go\<close> and of the adapter
  base that act on tables as a whole.  A nil table pointer makes the Go methods panic
  when they read its name; here the call returns \<open>NilPointerPanic\<close>.  The data-moving
  methods and the transaction are those of \<open>rest\<close>.
\<close>

definition MySQL_adapter :: "MySQL SQLAdapter \<Rightarrow> MySQL SQLAdapter" where
  "MySQL_adapter rest =
     rest\<lparr>GetTableSchema := (\<lambda>name m. MySQL_GetTableSchema m name),
          TruncateTable := (\<lambda>name m. MySQL_TruncateTable m name),
          DropTable := (\<lambda>name ifExists m. MySQL_DropTable m name ifExists),
          ReplaceTable :=
            (\<lambda>target replacement dropOld m.
               case replacement of
                 None \<Rightarrow> (Some NilPointerPanic, m)
               | Some r \<Rightarrow> MySQL_ReplaceTable m target r dropOld)\<rparr>"

section \<open>Flattener\<close>

record FlattenerImpl =
  omitNilValues :: bool

definition NewFlattener :: FlattenerImpl where
  "NewFlattener = \<lparr>omitNilValues = True\<rparr>"

text \<open>The one error of \<open>flatten\<close>: "Error marshaling array with key ...".\<close>

datatype flatten_error = MarshalError string

text \<open>
  \<open>FlattenerImpl.flatten\<close>.  \<open>marshal\<close> is \<open>jsoniter.Marshal\<close> (\<open>None\<close> when it returns
  an error) and \<open>SqlTypeKeyword\<close> the constant of that name, declared in another file of
  the package.  The destination map is passed in and returned; \<open>flatten_range\<close> is the
  \<open>range\<close> loop over the entries of a map value.
\<close>

fun flatten ::
  "(jvalue \<Rightarrow> string option) \<Rightarrow> string \<Rightarrow> FlattenerImpl \<Rightarrow> string \<Rightarrow> jvalue
     \<Rightarrow> (string \<rightharpoonup> jvalue) \<Rightarrow> flatten_error + (string \<rightharpoonup> jvalue)"
and flatten_range ::
  "(jvalue \<Rightarrow> string option) \<Rightarrow> string \<Rightarrow> FlattenerImpl \<Rightarrow> string \<Rightarrow> (string \<times> jvalue) list
     \<Rightarrow> (string \<rightharpoonup> jvalue) \<Rightarrow> flatten_error + (string \<rightharpoonup> jvalue)"
where
  "flatten marshal SqlTypeKeyword f key (JSlice xs) destination =
     (if Contains key SqlTypeKeyword then Inr (destination(key \<mapsto> JSlice xs))
      else
        (case marshal (JSlice xs) of
           None \<Rightarrow> Inl (MarshalError key)
         | Some b \<Rightarrow> Inr (destination(key \<mapsto> JStr b))))"
| "flatten marshal SqlTypeKeyword f key (JMap unboxed) destination =
     flatten_range marshal SqlTypeKeyword f key unboxed destination"
| "flatten marshal SqlTypeKeyword f key (JBool boolValue) destination =
     Inr (destination(key \<mapsto> JBool boolValue))"
| "flatten marshal SqlTypeKeyword f key JNil destination =
     (if \<not> omitNilValues f then Inr (destination(key \<mapsto> JNil)) else Inr destination)"
| "flatten marshal SqlTypeKeyword f key (JNum n) destination =
     Inr (destination(key \<mapsto> JNum n))"
| "flatten marshal SqlTypeKeyword f key (JStr strValue) destination =
     Inr (destination(key \<mapsto> JStr strValue))"
| "flatten_range marshal SqlTypeKeyword f key [] destination = Inr destination"
| "flatten_range marshal SqlTypeKeyword f key ((k, v) # rest) destination =
     (let newKey = (if key \<noteq> '''' then key @ ''_'' @ k else k)
      in case flatten marshal SqlTypeKeyword f newKey v destination of
           Inl err \<Rightarrow> Inl err
         | Inr destination' \<Rightarrow>
             flatten_range marshal SqlTypeKeyword f key rest destination')"

text \<open>\<open>FlattenerImpl.FlattenObject\<close>.\<close>

definition FlattenObject ::
  "(jvalue \<Rightarrow> string option) \<Rightarrow> string \<Rightarrow> FlattenerImpl \<Rightarrow> Object
     \<Rightarrow> flatten_error + (string \<rightharpoonup> jvalue)" where
  "FlattenObject marshal SqlTypeKeyword f json =
     (case flatten marshal SqlTypeKeyword f '''' (JMap json) Map.empty of
        Inl err \<Rightarrow> Inl err
      | Inr flattenMap \<Rightarrow>
          (case flattenMap '''' of
             Some emptyKeyValue \<Rightarrow>
               Inr ((flattenMap(''_unnamed'' \<mapsto> emptyKeyValue))('''' := None))
           | None \<Rightarrow> Inr flattenMap))"

text \<open>
  The compact JSON text of a value, as \<open>jsoniter.Marshal\<close> writes it for nil, bools,
  integers and slices and maps of them, and for strings that need no escaping (the model
  escapes nothing); map entries are written in the order of the list.
\<close>

fun digits :: "nat \<Rightarrow> string" where
  "digits n =
     (if n < 10 then [''0123456789'' ! n]
      else digits (n div 10) @ [''0123456789'' ! (n mod 10)])"

definition show_int :: "int \<Rightarrow> string" where
  "show_int i = (if i < 0 then CHR ''-'' # digits (nat (- i)) else digits (nat i))"

fun commas :: "string list \<Rightarrow> string" where
  "commas [] = []"
| "commas [x] = x"
| "commas (x # y # ys) = x @ '','' @ commas (y # ys)"

fun json_text :: "jvalue \<Rightarrow> string" where
  "json_text JNil = ''null''"
| "json_text (JBool b) = (if b then ''true'' else ''false'')"
| "json_text (JNum n) = show_int n"
| "json_text (JStr s) = CHR 0x22 # s @ [CHR 0x22]"
| "json_text (JSlice xs) = ''['' @ commas (map json_text xs) @ '']''"
| "json_text (JMap kvs) =
     ''{'' @ commas (map (\<lambda>(k, v). CHR 0x22 # k @ [CHR 0x22] @ '':'' @ json_text v) kvs) @ ''}''"

definition json_marshal :: "jvalue \<Rightarrow> string option" where
  "json_marshal v = Some (json_text v)"

section \<open>Example tables\<close>

definition users_table :: Table where
  "users_table =
     \<lparr>Name = ''users'', Temporary = False, Cached = False,
      Columns = [''id'' \<mapsto> \<lparr>Type = ''BIGINT'', DdlType = '''', Override = False,
                              DataType = INT64, New = False\<rparr>],
      PKFields = {''id''}, PrimaryKeyName = ''jitsu_pk_ab12'', TimestampColumn = '''',
      Partition = \<lparr>Field = '''', Value = '''', Granularity = ''''\<rparr>,
      DeletePkFields = False\<rparr>"


definition incoming_table :: Table where
  "incoming_table =
     \<lparr>Name = ''users'', Temporary = False, Cached = False,
      Columns = [''id'' \<mapsto> \<lparr>Type = ''BIGINT'', DdlType = '''', Override = False,
                              DataType = INT64, New = False\<rparr>,
                  ''email'' \<mapsto> \<lparr>Type = ''TEXT'', DdlType = '''', Override = False,
                              DataType = STRING, New = False\<rparr>],
      PKFields = {''email''}, PrimaryKeyName = '''', TimestampColumn = '''',
      Partition = \<lparr>Field = '''', Value = '''', Granularity = ''''\<rparr>,
      DeletePkFields = False\<rparr>"


text \<open>
  An example of the methods that \<open>MySQL_adapter\<close> takes from its argument, for the
  examples: loading and copying append rows (the upsert of a merge is not modelled),
  ensuring a table hands its argument back, commit and rollback succeed and leave the
  tables as they are.
\<close>

definition append_rows :: "Table option \<Rightarrow> Object list \<Rightarrow> MySQL \<Rightarrow> sql_error option \<times> MySQL" where
  "append_rows table new_rows m =
     (case table of
        None \<Rightarrow> (Some NilPointerPanic, m)
      | Some t \<Rightarrow>
          (case tables m (Name t) of
             None \<Rightarrow> (Some LoadError, m)
           | Some wt \<Rightarrow>
               (None, m\<lparr>tables := (tables m)(Name t \<mapsto> wt\<lparr>rows := rows wt @ new_rows\<rparr>)\<rparr>)))"

definition example_rest :: "MySQL SQLAdapter" where
  "example_rest =
     \<lparr>GetTableSchema = (\<lambda>name m. ((None, None), m)),
      TruncateTable = (\<lambda>name m. (None, m)),
      DropTable = (\<lambda>name ifExists m. (None, m)),
      ReplaceTable = (\<lambda>target replacement dropOld m. (None, m)),
      CopyTables =
        (\<lambda>target source mergeFlag m.
           case source of
             None \<Rightarrow> (Some NilPointerPanic, m)
           | Some s \<Rightarrow>
               append_rows target
                 (case tables m (Name s) of None \<Rightarrow> [] | Some wt \<Rightarrow> rows wt) m),
      LoadTable = append_rows,
      EnsureTableWithoutCaching = (\<lambda>sid table m. ((table, None), m)),
      Commit = (\<lambda>m. (None, m)),
      Rollback = (\<lambda>m. (None, m))\<rparr>"

definition events_table :: mysql_table where
  "events_table =
     \<lparr>columns = [(''id'', ''bigint''), (''name'', ''text'')], primary_key = [''id''],
      rows = [[(''id'', JNum 1), (''name'', JStr ''old'')]]\<rparr>"

definition side_rows :: mysql_table where
  "side_rows =
     \<lparr>columns = [(''id'', ''bigint''), (''name'', ''text'')], primary_key = [''id''],
      rows = [[(''id'', JNum 2), (''name'', JStr ''new'')]]\<rparr>"

definition events_db :: MySQL where
  "events_db =
     \<lparr>tables = [''events'' \<mapsto> events_table, ''events_tmp_240101_000000'' \<mapsto> side_rows],
      refused = (\<lambda>s. False),
      uuids = (\<lambda>n. ''ab12''),
      drawn = 0,
      clock = (\<lambda>n. if n = 0 then ''_20240101_000000'' else ''_20240101_000001''),
      ticks = 0,
      tableNameFunc = (\<lambda>name. name)\<rparr>"

definition side_table :: Table where
  "side_table =
     \<lparr>Name = ''events_tmp_240101_000000'', Temporary = False, Cached = False,
      Columns = [''id'' \<mapsto> \<lparr>Type = ''bigint'', DdlType = '''', Override = False,
                              DataType = INT64, New = False\<rparr>,
                  ''name'' \<mapsto> \<lparr>Type = ''text'', DdlType = '''', Override = False,
                              DataType = STRING, New = False\<rparr>],
      PKFields = {''id''}, PrimaryKeyName = ''jitsu_pk_ab12'', TimestampColumn = '''',
      Partition = \<lparr>Field = '''', Value = '''', Granularity = ''''\<rparr>,
      DeletePkFields = False\<rparr>"

definition fresh_stream :: stream where
  "fresh_stream =
     \<lparr>state = \<lparr>Status = Active, LastError = None, SuccessfulRows = 0, ProcessedRows = 0,
                Representation = None\<rparr>,
      stream_id = ''s1'', tableName = ''events'', mergeOpt = False, tx = False,
      tmpTable = None, dstTable = None, batchFile = None, trace = []\<rparr>"

definition completed_stream :: stream where
  "completed_stream = fresh_stream\<lparr>state := (state fresh_stream)\<lparr>Status := Completed\<rparr>\<rparr>"

definition events_schema :: Table where
  "events_schema =
     \<lparr>Name = ''events'', Temporary = False, Cached = False,
      Columns = [''id'' \<mapsto> \<lparr>Type = ''bigint'', DdlType = '''', Override = False,
                              DataType = UNKNOWN, New = False\<rparr>,
                  ''name'' \<mapsto> \<lparr>Type = ''text'', DdlType = '''', Override = False,
                              DataType = UNKNOWN, New = False\<rparr>],
      PKFields = {''id''}, PrimaryKeyName = ''jitsu_pk_ab12'', TimestampColumn = '''',
      Partition = \<lparr>Field = '''', Value = '''', Granularity = ''''\<rparr>,
      DeletePkFields = False\<rparr>"



definition drop_refused_db :: MySQL where
  "drop_refused_db =
     events_db\<lparr>refused := (\<lambda>s. s = DropTableStmt ''deprecated_events_20240101_000000'')\<rparr>"

definition same_second_db :: MySQL where
  "same_second_db = drop_refused_db\<lparr>clock := (\<lambda>n. ''_20240101_000000'')\<rparr>"

definition replace_stream :: stream where
  "replace_stream =
     fresh_stream
       \<lparr>state := (state fresh_stream)\<lparr>SuccessfulRows := 1, ProcessedRows := 1\<rparr>,
        tx := True, tmpTable := Some side_table\<rparr>"

text \<open>
  The vocabulary of the flattening claims.  \<open>leaves\<close> lists the values of a record
  that are not maps, each with its path (the keys from the top down to the value), in
  the order in which \<open>flatten\<close> visits them.  \<open>join_path\<close> joins the components of a
  path with \<open>_\<close>.  \<open>stored\<close> is the form in which a leaf is to be kept under a flat
  key: a sequence as its JSON text, unless the key contains the SQL-type marker, any
  other value as it is.  \<open>flat_key\<close> is the key that the loop of \<open>flatten\<close> builds along
  a path, starting from \<open>key\<close>.
\<close>

fun leaves :: "jvalue \<Rightarrow> (string list \<times> jvalue) list"
and leaves_range :: "(string \<times> jvalue) list \<Rightarrow> (string list \<times> jvalue) list" where
  "leaves (JMap kvs) = leaves_range kvs"
| "leaves JNil = [([], JNil)]"
| "leaves (JBool b) = [([], JBool b)]"
| "leaves (JNum n) = [([], JNum n)]"
| "leaves (JStr s) = [([], JStr s)]"
| "leaves (JSlice xs) = [([], JSlice xs)]"
| "leaves_range [] = []"
| "leaves_range ((k, v) # rest) = map (\<lambda>(p, x). (k # p, x)) (leaves v) @ leaves_range rest"

fun join_path :: "string list \<Rightarrow> string" where
  "join_path [] = ''''"
| "join_path [k] = k"
| "join_path (k # k' # ks) = k @ ''_'' @ join_path (k' # ks)"

fun stored :: "(jvalue \<Rightarrow> string option) \<Rightarrow> string \<Rightarrow> string \<Rightarrow> jvalue \<Rightarrow> jvalue option" where
  "stored marshal marker key (JSlice xs) =
     (if Contains key marker then Some (JSlice xs) else map_option JStr (marshal (JSlice xs)))"
| "stored marshal marker key v = Some v"

fun flat_key :: "string \<Rightarrow> string list \<Rightarrow> string" where
  "flat_key key [] = key"
| "flat_key key (k # ks) = flat_key (if key \<noteq> '''' then key @ ''_'' @ k else k) ks"


definition collision_example :: Object where
  "collision_example = [(''a_b'', JSlice [JNum 1]), (''a'', JMap [(''b'', JNum 2)])]"

definition empty_key_example :: Object where
  "empty_key_example = [('''', JMap [(''a'', JNum 1)])]"

definition marker_example :: Object where
  "marker_example =
     [(''x__sql_type'', JSlice [JStr ''int'']), (''n'', JNil),
      (''s'', JMap [(''t'', JSlice [JNum 1, JNum 2])]), (''b'', JBool True)]"

definition flat_entries ::
  "(jvalue \<Rightarrow> string option) \<Rightarrow> string \<Rightarrow> string \<Rightarrow> (string list \<times> jvalue) list
     \<Rightarrow> (string \<times> jvalue option) list" where
  "flat_entries marshal marker key ls =
     map (\<lambda>(p, x). (flat_key key p, stored marshal marker (flat_key key p) x))
       (filter (\<lambda>(p, x). x \<noteq> JNil) ls)"

definition put_all :: "(string \<rightharpoonup> jvalue) \<Rightarrow> (string \<times> jvalue option) list \<Rightarrow> (string \<rightharpoonup> jvalue)" where
  "put_all d es = foldl (\<lambda>acc (k, y). acc(k := y)) d es"

section \<open>Properties of the table diff and of the column DDL\<close>

lemma HasPrefix_append: "HasPrefix (p @ s) p"
  by (induction p) auto

lemma ToLower_prefix: "ToLower BulkerManagedPkConstraintPrefix = BulkerManagedPkConstraintPrefix"
  by (simp add: ToLower_def BulkerManagedPkConstraintPrefix_def lower_char_def)

lemma managed_generated:
  "HasPrefix (ToLower (BuildConstraintName u n)) BulkerManagedPkConstraintPrefix"
  using HasPrefix_append[of BulkerManagedPkConstraintPrefix "ToLower u"] ToLower_prefix
  by (simp add: BuildConstraintName_def ToLower_def)


text \<open>
  Claim C9.  The column DDL of the MySQL adapter is the quoted name followed by a type:
  \<open>VARCHAR(255)\<close> when the column is in the primary-key set and its DDL type is
  \<open>TEXT\<close>; the DDL type of the column, unchanged, for every column outside the
  primary-key set and for every primary-key column of another type.
\<close>

theorem mysql_column_ddl_pk_text:
  "mySQLColumnDDL name quotedName column pkFields =
     quotedName @ '' '' @
       (if name \<in> pkFields \<and> GetDDLType column = ''TEXT'' then ''VARCHAR(255)''
        else GetDDLType column)"
  by (simp add: mySQLColumnDDL_def mySQLPrimaryKeyTypesMapping_def Let_def)

theorem mysql_column_ddl_pk_text_witness:
  "mySQLColumnDDL ''id'' ''`id`'' \<lparr>Type = ''TEXT'', DdlType = '''', Override = False,
      DataType = STRING, New = False\<rparr> {''id''} = ''`id` VARCHAR(255)'' \<and>
   mySQLColumnDDL ''name'' ''`name`'' \<lparr>Type = ''TEXT'', DdlType = '''', Override = False,
      DataType = STRING, New = False\<rparr> {''id''} = ''`name` TEXT'' \<and>
   mySQLColumnDDL ''id'' ''`id`'' \<lparr>Type = ''BIGINT'', DdlType = '''', Override = False,
      DataType = INT64, New = False\<rparr> {''id''} = ''`id` BIGINT''"
  using mysql_column_ddl_pk_text [of "''id''" "''`id`''" "\<lparr>Type = ''TEXT'', DdlType = '''', Override = False,
      DataType = STRING, New = False\<rparr>" "{''id''}"]
    mysql_column_ddl_pk_text [of "''name''" "''`name`''" "\<lparr>Type = ''TEXT'', DdlType = '''', Override = False,
      DataType = STRING, New = False\<rparr>" "{''id''}"]
    mysql_column_ddl_pk_text [of "''id''" "''`id`''" "\<lparr>Type = ''BIGINT'', DdlType = '''', Override = False,
      DataType = INT64, New = False\<rparr>" "{''id''}"]
  by (simp add: GetDDLType_def)

lemma Diff_Columns:
  "Columns (Diff u A (Some B)) n =
     (if Exists (Some B) \<and> Columns A n = None then Columns B n else None)"
  by (simp add: Diff_def empty_diff_def Let_def)

lemma not_Exists_Columns: "\<not> Exists (Some B) \<Longrightarrow> Columns B n = None"
  by (simp add: fun_eq_iff)

lemma Diff_self_pk:
  "PKFields (Diff u A (Some A)) = {} \<and> \<not> DeletePkFields (Diff u A (Some A))"
  by (simp add: Diff_def empty_diff_def Let_def Set_Equals_def)

text \<open>
  Claim C6.  \<open>Diff\<close> is minimal and additive.  The diff of a table with itself has no
  columns, an empty primary-key set and no delete flag.  For two tables \<open>A\<close> and \<open>B\<close>,
  every column name of \<open>B\<close> is a column of \<open>A\<close> or of the diff; the diff names no
  column of \<open>A\<close>, all its columns are columns of \<open>B\<close>, and adding them to the columns
  of \<open>A\<close> leaves every column of \<open>A\<close> as it was.
\<close>

theorem diff_minimal_additive:
  "Columns (Diff u A (Some A)) = Map.empty \<and>
   PKFields (Diff u A (Some A)) = {} \<and>
   \<not> DeletePkFields (Diff u A (Some A)) \<and>
   dom (Columns B) \<subseteq> dom (Columns A) \<union> dom (Columns (Diff u A (Some B))) \<and>
   dom (Columns (Diff u A (Some B))) \<inter> dom (Columns A) = {} \<and>
   (\<forall>n c. Columns (Diff u A (Some B)) n = Some c \<longrightarrow> Columns B n = Some c) \<and>
   (\<forall>n c. Columns A n = Some c \<longrightarrow> (Columns A ++ Columns (Diff u A (Some B))) n = Some c)"
proof -
  have self: "Columns (Diff u A (Some A)) = Map.empty"
  proof
    fix n show "Columns (Diff u A (Some A)) n = None"
      by (simp add: Diff_Columns)
  qed
  have cover: "dom (Columns B) \<subseteq> dom (Columns A) \<union> dom (Columns (Diff u A (Some B)))"
  proof
    fix n assume "n \<in> dom (Columns B)"
    then obtain c where c: "Columns B n = Some c" by blast
    then have ex: "Exists (Some B)" using not_Exists_Columns [of B n] by auto
    show "n \<in> dom (Columns A) \<union> dom (Columns (Diff u A (Some B)))"
    proof (cases "Columns A n")
      case None
      with ex c have "Columns (Diff u A (Some B)) n = Some c" by (simp add: Diff_Columns)
      then show ?thesis by blast
    next
      case (Some a)
      then show ?thesis by blast
    qed
  qed
  have disj: "dom (Columns (Diff u A (Some B))) \<inter> dom (Columns A) = {}"
  proof -
    have "\<And>n. n \<in> dom (Columns (Diff u A (Some B))) \<Longrightarrow> n \<notin> dom (Columns A)"
      by (auto simp: Diff_Columns split: if_splits)
    then show ?thesis by blast
  qed
  have from_B: "\<forall>n c. Columns (Diff u A (Some B)) n = Some c \<longrightarrow> Columns B n = Some c"
    by (simp add: Diff_Columns split: if_splits)
  have keep: "\<forall>n c. Columns A n = Some c \<longrightarrow> (Columns A ++ Columns (Diff u A (Some B))) n = Some c"
    by (simp add: map_add_def Diff_Columns)
  from self Diff_self_pk [of u A] cover disj from_B keep show ?thesis by blast
qed
theorem diff_minimal_additive_witness:
  "Columns (Diff ''x1'' users_table (Some users_table)) = Map.empty \<and>
   dom (Columns incoming_table) \<subseteq>
     dom (Columns users_table) \<union> dom (Columns (Diff ''x1'' users_table (Some incoming_table))) \<and>
   Columns (Diff ''x1'' users_table (Some incoming_table)) ''email'' = Columns incoming_table ''email'' \<and>
   Columns incoming_table ''email'' \<noteq> None \<and>
   (Columns users_table ++ Columns (Diff ''x1'' users_table (Some incoming_table))) ''id'' = Columns users_table ''id'' \<and>
   Columns users_table ''id'' \<noteq> None"
  using diff_minimal_additive [of "''x1''" users_table incoming_table]
  by (simp add: users_table_def incoming_table_def Diff_def empty_diff_def Let_def
      BulkerManagedPkConstraintPrefix_def ToLower_def lower_char_def Set_Equals_def map_add_def)




lemma Diff_managed_pk:
  assumes "PrimaryKeyName cur = '''' \<or>
     HasPrefix (ToLower (PrimaryKeyName cur)) BulkerManagedPkConstraintPrefix"
    and "PKFields cur \<noteq> PKFields b" and "Exists (Some b)"
  shows "PKFields (Diff u cur (Some b)) = PKFields b \<and>
     PrimaryKeyName (Diff u cur (Some b)) = BuildConstraintName u (Name cur) \<and>
     (DeletePkFields (Diff u cur (Some b)) \<longleftrightarrow> PKFields cur \<noteq> {})"
  using assms unfolding Diff_def
  by (auto simp add: empty_diff_def Let_def Set_Equals_def simp del: Exists.simps)

lemma GetTableSchema_events:
  "MySQL_GetTableSchema events_db ''events'' =
     ((Some events_schema, None), events_db\<lparr>drawn := 1\<rparr>)"
  by (simp add: MySQL_GetTableSchema_def MySQL_getTable_def MySQL_getPrimaryKeys_def
      NewLettersNumbers_def Let_def events_db_def events_table_def BuildConstraintName_def
      BulkerManagedPkConstraintPrefix_def events_schema_def)

text \<open>
  Claim C10.  \<open>BuildConstraintName\<close> does not look at the table name: the result is
  \<open>jitsu_pk_\<close> followed by the string the random source returned, and the
  primary-key guard of \<open>Diff\<close> classifies it as bulker-managed.  \<open>GetTableSchema\<close> of
  the MySQL adapter gives such a generated name to every table that has a primary key, so
  \<open>Diff\<close> never treats a primary key read from MySQL as user-defined: against an
  existing incoming table with another primary-key set it asks to drop and re-create the
  key.
\<close>

theorem generated_constraint_names_are_managed:
  "BuildConstraintName u n1 = BuildConstraintName u n2 \<and>
   BuildConstraintName u n1 = ''jitsu_pk_'' @ u \<and>
   HasPrefix (ToLower (BuildConstraintName u n1)) BulkerManagedPkConstraintPrefix \<and>
   (fst (fst (MySQL_GetTableSchema m name)) = Some t \<and> PKFields t \<noteq> {} \<longrightarrow>
      PrimaryKeyName t = BuildConstraintName (uuids m (drawn m)) (Name t) \<and>
      HasPrefix (ToLower (PrimaryKeyName t)) BulkerManagedPkConstraintPrefix \<and>
      (Exists (Some b) \<and> PKFields b \<noteq> PKFields t \<longrightarrow>
         DeletePkFields (Diff u t (Some b)) \<and>
         PKFields (Diff u t (Some b)) = PKFields b \<and>
         PrimaryKeyName (Diff u t (Some b)) = BuildConstraintName u (Name t)))"
proof -
  have a: "BuildConstraintName u n1 = BuildConstraintName u n2"
    by (simp add: BuildConstraintName_def)
  have b: "BuildConstraintName u n1 = ''jitsu_pk_'' @ u"
    by (simp add: BuildConstraintName_def BulkerManagedPkConstraintPrefix_def)
  have c: "HasPrefix (ToLower (BuildConstraintName u n1)) BulkerManagedPkConstraintPrefix"
    by (rule managed_generated)
  have d: "PrimaryKeyName t = BuildConstraintName (uuids m (drawn m)) (Name t)"
    if "fst (fst (MySQL_GetTableSchema m name)) = Some t" and "PKFields t \<noteq> {}"
    using that
    by (auto simp add: MySQL_GetTableSchema_def MySQL_getTable_def MySQL_getPrimaryKeys_def
        NewLettersNumbers_def Let_def split: sum.splits if_splits)
  have e: "DeletePkFields (Diff u t (Some b)) \<and> PKFields (Diff u t (Some b)) = PKFields b \<and>
      PrimaryKeyName (Diff u t (Some b)) = BuildConstraintName u (Name t)"
    if n: "PrimaryKeyName t = BuildConstraintName v (Name t)" and pk: "PKFields t \<noteq> {}"
      and ex: "Exists (Some b)" and ne: "PKFields b \<noteq> PKFields t" for v
  proof -
    have "HasPrefix (ToLower (PrimaryKeyName t)) BulkerManagedPkConstraintPrefix"
      unfolding n by (rule managed_generated)
    moreover have "PKFields t \<noteq> PKFields b" using ne by blast
    ultimately show ?thesis
      using Diff_managed_pk [of t b u] pk ex by blast
  qed
  show ?thesis
    using a b c d e managed_generated by metis
qed

theorem generated_constraint_names_are_managed_witness:
  "fst (fst (MySQL_GetTableSchema events_db ''events'')) = Some events_schema \<and>
   PKFields events_schema \<noteq> {} \<and>
   Exists (Some incoming_table) \<and> PKFields incoming_table \<noteq> PKFields events_schema \<and>
   PrimaryKeyName events_schema = ''jitsu_pk_ab12'' \<and>
   DeletePkFields (Diff ''x1'' events_schema (Some incoming_table)) \<and>
   PrimaryKeyName (Diff ''x1'' events_schema (Some incoming_table)) = ''jitsu_pk_x1''"
proof -
  have g: "fst (fst (MySQL_GetTableSchema events_db ''events'')) = Some events_schema"
    by (simp add: GetTableSchema_events)
  have pk: "PKFields events_schema \<noteq> {}"
    by (simp add: events_schema_def)
  have ex: "Exists (Some incoming_table) \<and> PKFields incoming_table \<noteq> PKFields events_schema"
    by (simp add: incoming_table_def events_schema_def)
  have nm: "PrimaryKeyName events_schema = ''jitsu_pk_ab12''"
    by (simp add: events_schema_def)
  show ?thesis
    using generated_constraint_names_are_managed
      [of "''x1''" "''a''" "''b''" events_db "''events''" events_schema incoming_table]
      g pk ex nm
    by (simp add: BuildConstraintName_def BulkerManagedPkConstraintPrefix_def)
qed

text \<open>
  Claim C8.  \<open>Complete\<close> on a stream whose status is not \<open>Active\<close> returns the error
  "stream is not active" together with the unchanged state; the stream (and with it the
  trace of adapter calls) and the warehouse are left as they were, in Batch and in
  ReplaceTable mode.
\<close>

theorem complete_not_active:
  "Status (state ps) \<noteq> Active \<Longrightarrow>
     TransactionalStream_Complete ad ps w = ((state ps, Some NotActive), ps, w) \<and>
     ReplaceTableStream_Complete ad ps w = ((state ps, Some NotActive), ps, w)"
  by (simp add: TransactionalStream_Complete_def ReplaceTableStream_Complete_def)

theorem complete_not_active_witness:
  "Status (state completed_stream) \<noteq> Active \<and>
   TransactionalStream_Complete (MySQL_adapter example_rest) completed_stream events_db =
     ((state completed_stream, Some NotActive), completed_stream, events_db) \<and>
   ReplaceTableStream_Complete (MySQL_adapter example_rest) completed_stream events_db =
     ((state completed_stream, Some NotActive), completed_stream, events_db)"
proof -
  have h: "Status (state completed_stream) \<noteq> Active"
    by (simp add: completed_stream_def fresh_stream_def)
  show ?thesis
    using h complete_not_active [OF h, of "MySQL_adapter example_rest" events_db] by simp
qed

section \<open>Properties of the streams\<close>


lemma postComplete_error:
  "err \<noteq> None \<or> \<not> tx ps \<Longrightarrow> snd (fst (postComplete ad ps w err)) = err"
  by (auto simp add: postComplete_def release_tmp_def finish_def called_def Let_def
      split: option.splits prod.splits)










lemma called_fields:
  "tableName (called c ps) = tableName ps"
  "tmpTable (called c ps) = tmpTable ps"
  "dstTable (called c ps) = dstTable ps"
  "tx (called c ps) = tx ps"
  "state (called c ps) = state ps"
  "batchFile (called c ps) = batchFile ps"
  "mergeOpt (called c ps) = mergeOpt ps"
  "stream_id (called c ps) = stream_id ps"
  "trace (called c ps) = trace ps @ [c]"
  by (simp_all add: called_def)






lemma first_replace:
  "MySQL_ReplaceTable drop_refused_db ''events'' side_table True =
     (Some DropError,
      drop_refused_db
        \<lparr>tables := [''deprecated_events_20240101_000000'' \<mapsto> events_table,
                     ''events'' \<mapsto> side_rows],
         ticks := 1\<rparr>)"
  by (simp add: MySQL_ReplaceTable_def MySQL_renameTable_def base_renameTable_def
      MySQL_DropTable_def NowFormat_def drop_refused_db_def events_db_def side_table_def
      Let_def fun_upd_twist)

lemma second_replace:
  "MySQL_ReplaceTable
     (drop_refused_db
        \<lparr>tables := [''deprecated_events_20240101_000000'' \<mapsto> events_table,
                     ''events'' \<mapsto> side_rows],
         ticks := Suc 0\<rparr>) ''events'' side_table False =
     (Some RenameError,
      drop_refused_db
        \<lparr>tables := [''deprecated_events_20240101_000000'' \<mapsto> events_table,
                     ''deprecated_events_20240101_000001'' \<mapsto> side_rows],
         ticks := 2\<rparr>)"
  by (simp add: MySQL_ReplaceTable_def MySQL_renameTable_def base_renameTable_def
      MySQL_DropTable_def NowFormat_def drop_refused_db_def events_db_def side_table_def
      Let_def fun_upd_twist)

lemma replace_body_failing:
  "ReplaceTableStream_body (MySQL_adapter example_rest) replace_stream drop_refused_db =
     (Some RenameError,
      called (CallReplaceTable ''events'' (Some side_table) False)
        (called (CallReplaceTable ''events'' (Some side_table) True) replace_stream),
      drop_refused_db
        \<lparr>tables := [''deprecated_events_20240101_000000'' \<mapsto> events_table,
                     ''deprecated_events_20240101_000001'' \<mapsto> side_rows],
         ticks := 2\<rparr>)"
proof -
  have f: "LastError (state replace_stream) = None" "0 < SuccessfulRows (state replace_stream)"
    "batchFile replace_stream = None" "tableName replace_stream = ''events''"
    "tmpTable replace_stream = Some side_table"
    by (simp_all add: replace_stream_def fresh_stream_def)
  have r: "ReplaceTable (MySQL_adapter example_rest) =
      (\<lambda>target replacement dropOld m.
         case replacement of None \<Rightarrow> (Some NilPointerPanic, m)
         | Some r \<Rightarrow> MySQL_ReplaceTable m target r dropOld)"
    by (simp add: MySQL_adapter_def)
  show ?thesis
    by (simp add: ReplaceTableStream_body_def f r first_replace second_replace called_fields
        Let_def)
qed

lemma postComplete_failed:
  "Status (fst (fst (postComplete ad ps w (Some e)))) = Failed"
  by (simp add: postComplete_def release_tmp_def finish_def called_def Let_def
      split: option.splits prod.splits)

lemma first_replace_same_second:
  "MySQL_ReplaceTable same_second_db ''events'' side_table True =
     (Some DropError,
      same_second_db
        \<lparr>tables := [''deprecated_events_20240101_000000'' \<mapsto> events_table,
                     ''events'' \<mapsto> side_rows],
         ticks := 1\<rparr>)"
  by (simp add: MySQL_ReplaceTable_def MySQL_renameTable_def base_renameTable_def
      MySQL_DropTable_def NowFormat_def same_second_db_def drop_refused_db_def events_db_def
      side_table_def Let_def fun_upd_twist)

lemma second_replace_same_second:
  "MySQL_ReplaceTable
     (same_second_db
        \<lparr>tables := [''deprecated_events_20240101_000000'' \<mapsto> events_table,
                     ''events'' \<mapsto> side_rows],
         ticks := Suc 0\<rparr>) ''events'' side_table False =
     (Some RenameError,
      same_second_db
        \<lparr>tables := [''deprecated_events_20240101_000000'' \<mapsto> events_table,
                     ''events'' \<mapsto> side_rows],
         ticks := 2\<rparr>)"
  by (simp add: MySQL_ReplaceTable_def MySQL_renameTable_def base_renameTable_def
      MySQL_DropTable_def NowFormat_def same_second_db_def drop_refused_db_def events_db_def
      side_table_def Let_def fun_upd_twist)

lemma replace_body_same_second:
  "ReplaceTableStream_body (MySQL_adapter example_rest) replace_stream same_second_db =
     (Some RenameError,
      called (CallReplaceTable ''events'' (Some side_table) False)
        (called (CallReplaceTable ''events'' (Some side_table) True) replace_stream),
      same_second_db
        \<lparr>tables := [''deprecated_events_20240101_000000'' \<mapsto> events_table,
                     ''events'' \<mapsto> side_rows],
         ticks := 2\<rparr>)"
proof -
  have f: "LastError (state replace_stream) = None" "0 < SuccessfulRows (state replace_stream)"
    "batchFile replace_stream = None" "tableName replace_stream = ''events''"
    "tmpTable replace_stream = Some side_table"
    by (simp_all add: replace_stream_def fresh_stream_def)
  have r: "ReplaceTable (MySQL_adapter example_rest) =
      (\<lambda>target replacement dropOld m.
         case replacement of None \<Rightarrow> (Some NilPointerPanic, m)
         | Some r \<Rightarrow> MySQL_ReplaceTable m target r dropOld)"
    by (simp add: MySQL_adapter_def)
  show ?thesis
    by (simp add: ReplaceTableStream_body_def f r first_replace_same_second
        second_replace_same_second called_fields Let_def)
qed

text \<open>
  Claim C5 says that after a \<open>DropError\<close> of \<open>ReplaceTable\<close> the retry without the
  drop leaves the destination holding the data of the side table, the swap being treated
  as complete.  On the MySQL adapter the retry runs both renames again.  In the example
  the destination \<open>events\<close> and the side table exist, the stream has one successful
  row, and the server refuses to drop the deprecated table.  The first call swaps the
  tables and returns the \<open>DropError\<close>; the retry, one second later, renames the new
  \<open>events\<close> to a second deprecated name and then fails to rename the side table, which
  no longer exists: \<open>Complete\<close> returns a \<open>RenameError\<close>, the stream is \<open>Failed\<close>,
  and there is no table \<open>events\<close>.  When the retry falls into the same second, its
  first rename fails on the taken name, \<open>events\<close> keeps the new data, and \<open>Complete\<close>
  still returns the \<open>RenameError\<close>.
\<close>

theorem replace_table_drop_error_retry:
  "fst (ReplaceTableStream_body (MySQL_adapter example_rest) replace_stream drop_refused_db) =
     Some RenameError \<and>
   trace (fst (snd (ReplaceTableStream_body (MySQL_adapter example_rest)
                      replace_stream drop_refused_db))) =
     [CallReplaceTable ''events'' (Some side_table) True,
      CallReplaceTable ''events'' (Some side_table) False] \<and>
   tables (snd (snd (ReplaceTableStream_body (MySQL_adapter example_rest)
                       replace_stream drop_refused_db))) ''events'' = None \<and>
   tables (snd (snd (ReplaceTableStream_body (MySQL_adapter example_rest)
                       replace_stream drop_refused_db))) ''deprecated_events_20240101_000001'' =
     Some side_rows \<and>
   tables (snd (snd (ReplaceTableStream_body (MySQL_adapter example_rest)
                       replace_stream drop_refused_db))) ''deprecated_events_20240101_000000'' =
     Some events_table \<and>
   snd (fst (ReplaceTableStream_Complete (MySQL_adapter example_rest)
               replace_stream drop_refused_db)) = Some RenameError \<and>
   Status (fst (fst (ReplaceTableStream_Complete (MySQL_adapter example_rest)
                       replace_stream drop_refused_db))) = Failed \<and>
   tables (snd (snd (ReplaceTableStream_body (MySQL_adapter example_rest)
                       replace_stream same_second_db))) ''events'' = Some side_rows \<and>
   snd (fst (ReplaceTableStream_Complete (MySQL_adapter example_rest)
               replace_stream same_second_db)) = Some RenameError \<and>
   Status (fst (fst (ReplaceTableStream_Complete (MySQL_adapter example_rest)
                       replace_stream same_second_db))) = Failed"
proof -
  have active: "Status (state replace_stream) = Active"
    by (simp add: replace_stream_def fresh_stream_def)
  have comp: "ReplaceTableStream_Complete (MySQL_adapter example_rest) replace_stream
        drop_refused_db =
      postComplete (MySQL_adapter example_rest)
        (called (CallReplaceTable ''events'' (Some side_table) False)
          (called (CallReplaceTable ''events'' (Some side_table) True) replace_stream))
        (drop_refused_db
          \<lparr>tables := [''deprecated_events_20240101_000000'' \<mapsto> events_table,
                       ''deprecated_events_20240101_000001'' \<mapsto> side_rows],
           ticks := 2\<rparr>) (Some RenameError)"
    using active by (simp add: ReplaceTableStream_Complete_def replace_body_failing)
  have comp2: "ReplaceTableStream_Complete (MySQL_adapter example_rest) replace_stream
        same_second_db =
      postComplete (MySQL_adapter example_rest)
        (called (CallReplaceTable ''events'' (Some side_table) False)
          (called (CallReplaceTable ''events'' (Some side_table) True) replace_stream))
        (same_second_db
          \<lparr>tables := [''deprecated_events_20240101_000000'' \<mapsto> events_table,
                       ''events'' \<mapsto> side_rows],
           ticks := 2\<rparr>) (Some RenameError)"
    using active by (simp add: ReplaceTableStream_Complete_def replace_body_same_second)
  show ?thesis
    unfolding comp comp2 replace_body_failing replace_body_same_second
    by (simp add: called_fields postComplete_error postComplete_failed replace_stream_def
        fresh_stream_def)
qed

section \<open>Properties of the flattener\<close>

lemma put_all_simps:
  "put_all d [] = d"
  "put_all d ((k, y) # es) = put_all (d(k := y)) es"
  "put_all d (es @ es') = put_all (put_all d es) es'"
  by (simp_all add: put_all_def)

lemma flat_entries_simps:
  "flat_entries marshal marker key [] = []"
  "flat_entries marshal marker key (ls @ ls') =
     flat_entries marshal marker key ls @ flat_entries marshal marker key ls'"
  by (simp_all add: flat_entries_def)

lemma flat_entries_down:
  "flat_entries marshal marker key (map (\<lambda>(p, x). (k # p, x)) ls) =
     flat_entries marshal marker (if key \<noteq> '''' then key @ ''_'' @ k else k) ls"
  by (induction ls) (auto simp add: flat_entries_def)

lemma flatten_writes:
  "flatten marshal marker f key v d = Inr d' \<Longrightarrow> omitNilValues f \<Longrightarrow>
     d' = put_all d (flat_entries marshal marker key (leaves v)) \<and>
     (\<forall>e \<in> set (flat_entries marshal marker key (leaves v)). snd e \<noteq> None)"
  "flatten_range marshal marker f key kvs d = Inr d' \<Longrightarrow> omitNilValues f \<Longrightarrow>
     d' = put_all d (flat_entries marshal marker key (leaves_range kvs)) \<and>
     (\<forall>e \<in> set (flat_entries marshal marker key (leaves_range kvs)). snd e \<noteq> None)"
proof (induction marshal marker f key v d and marshal marker f key kvs d
    arbitrary: d' and d' rule: flatten_flatten_range.induct)
  case (1 marshal SqlTypeKeyword f key xs destination)
  then show ?case
    by (auto simp add: flat_entries_def put_all_def split: if_splits option.splits)
next
  case (2 marshal SqlTypeKeyword f key unboxed destination)
  then show ?case by simp
next
  case (3 marshal SqlTypeKeyword f key boolValue destination)
  then show ?case by (auto simp add: flat_entries_def put_all_def)
next
  case (4 marshal SqlTypeKeyword f key destination)
  then show ?case by (auto simp add: flat_entries_def put_all_def)
next
  case (5 marshal SqlTypeKeyword f key n destination)
  then show ?case by (auto simp add: flat_entries_def put_all_def)
next
  case (6 marshal SqlTypeKeyword f key strValue destination)
  then show ?case by (auto simp add: flat_entries_def put_all_def)
next
  case (7 marshal SqlTypeKeyword f key destination)
  then show ?case by (simp add: flat_entries_simps put_all_simps)
next
  case (8 marshal SqlTypeKeyword f key k v rest destination)
  let ?newKey = "if key \<noteq> '''' then key @ ''_'' @ k else k"
  from "8.prems"(1) obtain d1 where
    a: "flatten marshal SqlTypeKeyword f ?newKey v destination = Inr d1" and
    b: "flatten_range marshal SqlTypeKeyword f key rest d1 = Inr d'"
    by (auto simp add: Let_def split: sum.splits)
  note ih1 = "8.IH"(1) [OF refl a "8.prems"(2)]
  note ih2 = "8.IH"(2) [OF refl a b "8.prems"(2)]
  show ?case
    using ih1 ih2
    by (cases "key = []") (auto simp add: flat_entries_simps flat_entries_down put_all_simps)
qed

lemma put_all_other: "k \<notin> fst ` set es \<Longrightarrow> put_all d es k = d k"
  by (induction es arbitrary: d) (auto simp add: put_all_simps)

lemma put_all_lookup:
  "distinct (map fst es) \<Longrightarrow> (k, y) \<in> set es \<Longrightarrow> put_all d es k = y"
proof (induction es arbitrary: d)
  case Nil
  then show ?case by simp
next
  case (Cons e es)
  obtain k' y' where e: "e = (k', y')" by (cases e)
  show ?case
  proof (cases "(k, y) = e")
    case True
    then have "k \<notin> fst ` set es" using Cons.prems(1) e by auto
    then show ?thesis using True e by (simp add: put_all_simps put_all_other)
  next
    case False
    then have "(k, y) \<in> set es" using Cons.prems(2) by auto
    then show ?thesis using Cons.IH Cons.prems(1) e by (simp add: put_all_simps)
  qed
qed

lemma flat_key_from_nonempty:
  "key \<noteq> '''' \<Longrightarrow> flat_key key p = key @ concat (map (\<lambda>k. ''_'' @ k) p)"
  by (induction p arbitrary: key) auto

lemma join_path_Cons: "join_path (k # p) = k @ concat (map (\<lambda>k. ''_'' @ k) p)"
  by (induction p arbitrary: k) auto

lemma flat_key_join: "k \<noteq> '''' \<Longrightarrow> flat_key '''' (k # p) = join_path (k # p)"
  by (simp add: flat_key_from_nonempty join_path_Cons)

lemma leaves_range_paths:
  "(p, x) \<in> set (leaves_range kvs) \<Longrightarrow> p \<noteq> [] \<and> hd p \<in> fst ` set kvs"
proof (induction kvs)
  case Nil
  then show ?case by simp
next
  case (Cons kv kvs)
  obtain k v where kv: "kv = (k, v)" by (cases kv)
  from Cons.prems have "(p, x) \<in> (\<lambda>(p, x). (k # p, x)) ` set (leaves v) \<or>
      (p, x) \<in> set (leaves_range kvs)"
    unfolding kv by auto
  then show ?case
  proof
    assume "(p, x) \<in> (\<lambda>(p, x). (k # p, x)) ` set (leaves v)"
    then obtain p' where "p = k # p'" by auto
    then show ?thesis unfolding kv by simp
  next
    assume "(p, x) \<in> set (leaves_range kvs)"
    then show ?thesis using Cons.IH by auto
  qed
qed


lemma join_path_nonempty: "k \<noteq> '''' \<Longrightarrow> join_path (k # p) \<noteq> ''''"
  by (simp add: join_path_Cons)

text \<open>
  Claim C7, amended.  Take a record whose top-level keys are not empty and in which no
  two leaves other than nil have the same joined path, and let the default flattener
  (which omits nil values) return the flat map \<open>m\<close>.  Then every leaf other than nil is
  found under its path components joined by \<open>_\<close>: a scalar as it is, a sequence as its
  JSON text, or untouched when the key contains the SQL-type marker.  The map has no
  other keys: sub-mappings are expanded and nil values are left out.
\<close>

theorem flatten_expands_paths:
  assumes res: "FlattenObject marshal marker NewFlattener json = Inr m"
    and top: "\<forall>(k, v) \<in> set json. k \<noteq> ''''"
    and dist: "distinct (map (\<lambda>(p, x). join_path p)
                 (filter (\<lambda>(p, x). x \<noteq> JNil) (leaves (JMap json))))"
  shows "(\<forall>(p, x) \<in> set (leaves (JMap json)). x \<noteq> JNil \<longrightarrow>
            m (join_path p) = stored marshal marker (join_path p) x \<and>
            m (join_path p) \<noteq> None) \<and>
         dom m = {join_path p |p x. (p, x) \<in> set (leaves (JMap json)) \<and> x \<noteq> JNil}"
proof -
  let ?ls = "filter (\<lambda>(p, x). x \<noteq> JNil) (leaves_range json)"
  let ?es = "flat_entries marshal marker '''' (leaves_range json)"
  let ?es' = "map (\<lambda>(p, x). (join_path p, stored marshal marker (join_path p) x)) ?ls"
  from res obtain d where
    fl: "flatten marshal marker NewFlattener '''' (JMap json) Map.empty = Inr d"
    by (auto simp add: FlattenObject_def split: sum.splits)
  have omit: "omitNilValues NewFlattener" by (simp add: NewFlattener_def)
  from flatten_writes(1) [OF fl omit]
  have d: "d = put_all Map.empty ?es" and some: "\<forall>e \<in> set ?es. snd e \<noteq> None"
    by simp_all
  have key: "flat_key '''' p = join_path p \<and> join_path p \<noteq> ''''"
    if "(p, x) \<in> set (leaves_range json)" for p x
  proof -
    from leaves_range_paths [OF that] obtain k p' where p: "p = k # p'"
      and k: "k \<in> fst ` set json"
      by (cases p) auto
    from k top have "k \<noteq> ''''" by auto
    then show ?thesis unfolding p using flat_key_join join_path_nonempty by blast
  qed
  have es: "?es = ?es'"
    unfolding flat_entries_def
    by (rule map_cong) (auto simp add: key)
  have fst_es: "map fst ?es' = map (\<lambda>(p, x). join_path p) ?ls"
    by (simp add: case_prod_beta comp_def)
  have dist': "distinct (map fst ?es')"
    unfolding fst_es using dist by simp
  have no_empty: "'''' \<notin> fst ` set ?es'"
  proof
    assume "'''' \<in> fst ` set ?es'"
    then obtain p x where "(p, x) \<in> set (leaves_range json)" and "join_path p = ''''"
      by (auto simp add: image_iff)
    with key show False by blast
  qed
  have "d '''' = None"
    unfolding d es using put_all_other [OF no_empty] by simp
  with res fl have m: "m = put_all Map.empty ?es'"
    by (simp add: FlattenObject_def d es)
  have look: "m (join_path p) = stored marshal marker (join_path p) x \<and> m (join_path p) \<noteq> None"
    if "(p, x) \<in> set (leaves_range json)" and "x \<noteq> JNil" for p x
  proof -
    have mem: "(join_path p, stored marshal marker (join_path p) x) \<in> set ?es'"
      using that by (auto simp add: image_iff)
    from put_all_lookup [OF dist' mem]
    have 1: "m (join_path p) = stored marshal marker (join_path p) x"
      unfolding m .
    from some mem have "stored marshal marker (join_path p) x \<noteq> None"
      unfolding es by force
    with 1 show ?thesis by simp
  qed
  have dom_m: "dom m = {join_path p |p x. (p, x) \<in> set (leaves_range json) \<and> x \<noteq> JNil}"
  proof (intro set_eqI iffI)
    fix k assume "k \<in> dom m"
    then have mk: "m k \<noteq> None" by auto
    have "k \<in> fst ` set ?es'"
    proof (rule ccontr)
      assume "k \<notin> fst ` set ?es'"
      from put_all_other [OF this, of Map.empty] have "m k = None"
        unfolding m by simp
      with mk show False by simp
    qed
    then show "k \<in> {join_path p |p x. (p, x) \<in> set (leaves_range json) \<and> x \<noteq> JNil}"
      by (auto simp add: image_iff)
  next
    fix k assume "k \<in> {join_path p |p x. (p, x) \<in> set (leaves_range json) \<and> x \<noteq> JNil}"
    then obtain p x where "k = join_path p" "(p, x) \<in> set (leaves_range json)" "x \<noteq> JNil"
      by blast
    with look show "k \<in> dom m" by auto
  qed
  show ?thesis using look dom_m by auto
qed

lemma flatten_marker_example:
  "FlattenObject json_marshal ''__sql_type'' NewFlattener marker_example =
     Inr [''x__sql_type'' \<mapsto> JSlice [JStr ''int''], ''s_t'' \<mapsto> JStr ''[1,2]'',
          ''b'' \<mapsto> JBool True]"
  by (simp add: FlattenObject_def marker_example_def NewFlattener_def json_marshal_def
      show_int_def)

theorem flatten_expands_paths_witness:
  "FlattenObject json_marshal ''__sql_type'' NewFlattener marker_example =
     Inr [''x__sql_type'' \<mapsto> JSlice [JStr ''int''], ''s_t'' \<mapsto> JStr ''[1,2]'',
          ''b'' \<mapsto> JBool True] \<and>
   map fst marker_example = [''x__sql_type'', ''n'', ''s'', ''b''] \<and>
   leaves (JMap marker_example) =
     [([''x__sql_type''], JSlice [JStr ''int'']), ([''n''], JNil),
      ([''s'', ''t''], JSlice [JNum 1, JNum 2]), ([''b''], JBool True)] \<and>
   dom [''x__sql_type'' \<mapsto> JSlice [JStr ''int''], ''s_t'' \<mapsto> JStr ''[1,2]'',
        ''b'' \<mapsto> JBool True] =
     {join_path p |p x. (p, x) \<in> set (leaves (JMap marker_example)) \<and> x \<noteq> JNil}"
proof -
  have top: "\<forall>(k, v) \<in> set marker_example. k \<noteq> ''''"
    by (simp add: marker_example_def)
  have ls: "leaves (JMap marker_example) =
     [([''x__sql_type''], JSlice [JStr ''int'']), ([''n''], JNil),
      ([''s'', ''t''], JSlice [JNum 1, JNum 2]), ([''b''], JBool True)]"
    by (simp add: marker_example_def)
  have dist: "distinct (map (\<lambda>(p, x). join_path p)
                 (filter (\<lambda>(p, x). x \<noteq> JNil) (leaves (JMap marker_example))))"
    unfolding ls by simp
  have keys: "map fst marker_example = [''x__sql_type'', ''n'', ''s'', ''b'']"
    by (simp add: marker_example_def)
  from flatten_expands_paths [OF flatten_marker_example top dist]
  show ?thesis using flatten_marker_example keys ls by blast
qed

text \<open>
  Both conditions are needed.  Under an empty top-level key the nested key is not
  prefixed: the leaf with path \<open>["", "a"]\<close> is stored under \<open>a\<close>, not under \<open>_a\<close>.
  And when two leaves have the same joined path the later one replaces the earlier: the
  sequence under \<open>a_b\<close> is not stored at all.
\<close>

theorem flatten_expands_paths_counterexample:
  "leaves (JMap empty_key_example) = [(['''', ''a''], JNum 1)] \<and>
   join_path ['''', ''a''] = ''_a'' \<and>
   FlattenObject json_marshal ''__sql_type'' NewFlattener empty_key_example =
     Inr [''a'' \<mapsto> JNum 1] \<and>
   leaves (JMap collision_example) =
     [([''a_b''], JSlice [JNum 1]), ([''a'', ''b''], JNum 2)] \<and>
   \<not> Contains ''a_b'' ''__sql_type'' \<and>
   FlattenObject json_marshal ''__sql_type'' NewFlattener collision_example =
     Inr [''a_b'' \<mapsto> JNum 2]"
  by (simp add: FlattenObject_def empty_key_example_def collision_example_def
      NewFlattener_def json_marshal_def show_int_def)




end
